theory Spec2Isabelle
  imports Complex_Main "HOL-Library.Char_ord" "HOL-Library.List_Lexorder"
begin

section \<open>JavaScript truthiness\<close>

text \<open>
  The components test strings, optional booleans, numbers and optional objects with
  \<^verbatim>\<open>&&\<close>, \<^verbatim>\<open>!\<close> and \<^verbatim>\<open>if\<close>. A string is truthy when it is not empty, an
  optional boolean when it is present and true, a number when it is not zero, and an
  optional object when it is present.
\<close>

definition truthy_string :: "string \<Rightarrow> bool" where
  "truthy_string s = (s \<noteq> [])"

definition truthy_flag :: "bool option \<Rightarrow> bool" where
  "truthy_flag b = (case b of None \<Rightarrow> False | Some v \<Rightarrow> v)"

definition truthy_number :: "int \<Rightarrow> bool" where
  "truthy_number n = (n \<noteq> 0)"

definition truthy_object :: "'a option \<Rightarrow> bool" where
  "truthy_object x = (case x of None \<Rightarrow> False | Some _ \<Rightarrow> True)"

section \<open>The focus broadcast\<close>

text \<open>
  The payload of the \<^verbatim>\<open>FOCUS_ON_COLUMN\<close> event. The Column handler reads
  \<^verbatim>\<open>columnId\<close> and the optional \<^verbatim>\<open>highlight\<close>; the sidebar also sends
  \<^verbatim>\<open>animated\<close> and \<^verbatim>\<open>scrollTo\<close>.
\<close>

record focus_payload =
  columnId :: string
  highlight :: "bool option"
  animated :: "bool option"
  scrollTo :: "bool option"

section \<open>Column\<close>

text \<open>
  The border view behind \<^verbatim>\<open>columnBorderRef\<close>: the only style the handler
  writes is its opacity (0 or 1).
\<close>

record border_view =
  opacity :: nat

definition setNativeProps_opacity :: "nat \<Rightarrow> border_view \<Rightarrow> border_view" where
  "setNativeProps_opacity v b = b\<lparr>opacity := v\<rparr>"

text \<open>
  A mounted Column: its \<^verbatim>\<open>columnId\<close> prop, the two refs (\<^verbatim>\<open>None\<close> is a ref
  whose \<^verbatim>\<open>current\<close> is null), the pending \<^verbatim>\<open>setTimeout\<close> callbacks as
  their due times in milliseconds (every callback the component schedules is the same
  closure, \<^verbatim>\<open>revertHighlight\<close> below), and the number of \<^verbatim>\<open>tryFocus\<close> calls
  made on the panel.
\<close>

record column_instance =
  props_columnId :: string
  columnBorderRef :: "border_view option"
  columnRef :: bool
  timers :: "nat list"
  tryFocusCalls :: nat

text \<open>The body of the callback given to \<^verbatim>\<open>setTimeout\<close>.\<close>

definition revertHighlight :: "column_instance \<Rightarrow> column_instance" where
  "revertHighlight c =
     (case columnBorderRef c of
        None \<Rightarrow> c
      | Some b \<Rightarrow> c\<lparr>columnBorderRef := Some (setNativeProps_opacity 0 b)\<rparr>)"

text \<open>
  The \<^verbatim>\<open>FOCUS_ON_COLUMN\<close> handler of \<^verbatim>\<open>Column\<close>. \<open>web\<close> is
  \<^verbatim>\<open>Platform.OS === 'web'\<close>, \<open>now\<close> the time at which the handler runs.
\<close>

definition onFocusOnColumn ::
  "bool \<Rightarrow> nat \<Rightarrow> focus_payload \<Rightarrow> column_instance \<Rightarrow> column_instance" where
  "onFocusOnColumn web now payload c =
     (case columnBorderRef c of
        None \<Rightarrow> c
      | Some b \<Rightarrow>
          if \<not> (truthy_string (columnId payload) \<and> columnId payload = props_columnId c)
          then c\<lparr>columnBorderRef := Some (setNativeProps_opacity 0 b)\<rparr>
          else
            let c1 = (if truthy_flag (highlight payload)
                      then c\<lparr>columnBorderRef := Some (setNativeProps_opacity 1 b),
                             timers := timers c @ [now + 1000]\<rparr>
                      else c)
            in if web \<and> columnRef c1
               then c1\<lparr>tryFocusCalls := Suc (tryFocusCalls c1)\<rparr>
               else c1)"

text \<open>
  The emitter calls every subscribed handler with the same payload, synchronously and in
  subscription order.
\<close>

definition emit_FOCUS_ON_COLUMN ::
  "bool \<Rightarrow> nat \<Rightarrow> focus_payload \<Rightarrow> column_instance list \<Rightarrow> column_instance list" where
  "emit_FOCUS_ON_COLUMN web now payload cs = map (onFocusOnColumn web now payload) cs"

text \<open>
  The event loop with no other input: when the clock reaches \<open>t\<close>, every pending
  callback that is due has run, in scheduling order, and the others are still pending.
\<close>

definition advanceTo :: "nat \<Rightarrow> column_instance \<Rightarrow> column_instance" where
  "advanceTo t c =
     fold (\<lambda>_. revertHighlight) (filter (\<lambda>d. d \<le> t) (timers c))
       (c\<lparr>timers := filter (\<lambda>d. t < d) (timers c)\<rparr>)"

text \<open>The opacity the border shows; an unmounted border shows nothing.\<close>

definition borderOpacity :: "column_instance \<Rightarrow> nat option" where
  "borderOpacity c = map_option opacity (columnBorderRef c)"

section \<open>Sidebar\<close>

text \<open>
  What the sidebar does to its collaborators, in the order in which it does it: the two
  store actions, an event on the emitter (its name and payload) and
  \<^verbatim>\<open>scrollToItem({animated, item, viewPosition})\<close> on the list.
\<close>

record modal_payload =
  name :: string

datatype effect =
    CloseAllModals
  | ReplaceModal modal_payload
  | Emit string focus_payload
  | ScrollToItem bool string rat

text \<open>
  The props and hook values a render of \<^verbatim>\<open>Sidebar\<close> reads. \<^verbatim>\<open>sizename\<close> and
  \<^verbatim>\<open>appViewMode\<close> are the string labels the code compares; the types that
  enumerate them are declared outside these files, so every string is admitted.
\<close>

record sidebar_input =
  horizontal :: bool
  appViewMode :: string
  sizename :: string
  focusedColumnId :: "string option"
  focusedColumnIndex :: int
  columnIds :: "string list"
  currentOpenedModal :: "modal_payload option"
  modalStack :: "modal_payload list option"

text \<open>
  The two refs of a mounted sidebar: whether \<^verbatim>\<open>flatListRef.current\<close> is set, and
  \<^verbatim>\<open>sidebarLastClickedAtRef.current\<close> (initially 0), a \<^verbatim>\<open>Date.now()\<close> value
  in milliseconds.
\<close>

record sidebar_refs =
  flatListRef :: bool
  sidebarLastClickedAtRef :: int

definition initial_refs :: sidebar_refs where
  "initial_refs = \<lparr>flatListRef = False, sidebarLastClickedAtRef = 0\<rparr>"

subsection \<open>Derived flags\<close>

text \<open>
  \<^verbatim>\<open>sizename >= '3-large'\<close> compares strings: code unit by code unit, a proper
  prefix being smaller. That is the lexicographic order on \<^typ>\<open>string\<close>.
\<close>

definition small :: "sidebar_input \<Rightarrow> bool" where
  "small i = (sizename i = ''1-small'')"

definition large :: "sidebar_input \<Rightarrow> bool" where
  "large i = (sizename i \<ge> ''3-large'')"

definition showLabel :: "sidebar_input \<Rightarrow> bool" where
  "showLabel i = horizontal i"

definition showFixedSettingsButton :: "sidebar_input \<Rightarrow> bool" where
  "showFixedSettingsButton i = (\<not> horizontal i \<or> length (columnIds i) \<ge> 4)"

definition highlightFocusedColumn :: "sidebar_input \<Rightarrow> bool" where
  "highlightFocusedColumn i =
     ((appViewMode i = ''single-column'' \<or> small i) \<and> \<not> truthy_object (currentOpenedModal i))"

definition isModalOpen :: "sidebar_input \<Rightarrow> string \<Rightarrow> bool" where
  "isModalOpen i modalName =
     (case modalStack i of
        None \<Rightarrow> False
      | Some ms \<Rightarrow> list_ex (\<lambda>m. name m = modalName) ms)"

subsection \<open>The scroll-to-focus effect and the click timestamp\<close>

text \<open>The body of the layout effect; \<open>now\<close> is what \<^verbatim>\<open>Date.now()\<close> returns.\<close>

definition scrollToFocus :: "int \<Rightarrow> sidebar_input \<Rightarrow> sidebar_refs \<Rightarrow> effect list" where
  "scrollToFocus now i r =
     (case focusedColumnId i of
        None \<Rightarrow> []
      | Some fid \<Rightarrow>
          if \<not> (flatListRef r \<and> truthy_string fid) then []
          else if truthy_number (sidebarLastClickedAtRef r)
                  \<and> now - sidebarLastClickedAtRef r < 1000 then []
          else [ScrollToItem True fid (1 / 2)])"

text \<open>
  The dependency array of the effect. React runs the body after the first render
  (no previous dependencies) and after every render whose dependencies differ from those
  of the render before.
\<close>

definition layoutEffectDeps :: "sidebar_input \<Rightarrow> sidebar_refs \<Rightarrow> string option \<times> int \<times> bool" where
  "layoutEffectDeps i r = (focusedColumnId i, focusedColumnIndex i, flatListRef r)"

definition useLayoutEffect ::
  "(string option \<times> int \<times> bool) option \<Rightarrow> int \<Rightarrow> sidebar_input \<Rightarrow> sidebar_refs \<Rightarrow> effect list" where
  "useLayoutEffect prev now i r =
     (if prev = Some (layoutEffectDeps i r) then [] else scrollToFocus now i r)"

definition onSidebarItemPress :: "int \<Rightarrow> sidebar_refs \<Rightarrow> sidebar_refs" where
  "onSidebarItemPress now r = r\<lparr>sidebarLastClickedAtRef := now\<rparr>"

subsection \<open>The header, footer and fixed buttons\<close>

text \<open>
  A rendered \<^verbatim>\<open>ColumnHeaderItem\<close>, reduced to the props that depend on the
  sidebar's state (styles, sizes and tooltips are left out).
\<close>

record header_item =
  analyticsLabel :: string
  iconName :: string
  label :: string
  forceHoverState :: bool
  item_showLabel :: bool

definition ListHeaderComponent :: "sidebar_input \<Rightarrow> header_item option" where
  "ListHeaderComponent i =
     (if \<not> truthy_number (int (length (columnIds i))) \<and> \<not> large i
      then Some \<lparr>analyticsLabel = ''sidebar_add'', iconName = ''plus'', label = ''add column'',
                 forceHoverState = isModalOpen i ''ADD_COLUMN'', item_showLabel = showLabel i\<rparr>
      else None)"

definition settingsItem :: "sidebar_input \<Rightarrow> header_item" where
  "settingsItem i =
     \<lparr>analyticsLabel = ''sidebar_settings'', iconName = ''gear'', label = ''preferences'',
      forceHoverState = isModalOpen i ''SETTINGS'', item_showLabel = showLabel i\<rparr>"

definition ListFooterComponent :: "sidebar_input \<Rightarrow> header_item option" where
  "ListFooterComponent i = (if showFixedSettingsButton i then None else Some (settingsItem i))"

definition fixedSettingsButton :: "sidebar_input \<Rightarrow> header_item option" where
  "fixedSettingsButton i = (if showFixedSettingsButton i then Some (settingsItem i) else None)"

text \<open>
  The second "add column" item, outside the list. \<^verbatim>\<open>shouldRenderFAB\<close> is declared
  outside these files and is a parameter.
\<close>

definition fixedAddColumnButton :: "(string \<Rightarrow> bool) \<Rightarrow> sidebar_input \<Rightarrow> header_item option" where
  "fixedAddColumnButton shouldRenderFAB i =
     (if \<not> small i \<and> large i \<and> \<not> shouldRenderFAB (sizename i)
      then Some \<lparr>analyticsLabel = ''sidebar_add'', iconName = ''plus'', label = ''add column'',
                 forceHoverState = isModalOpen i ''ADD_COLUMN'', item_showLabel = showLabel i\<rparr>
      else None)"

text \<open>The \<^verbatim>\<open>onPress\<close> of the "add column" items.\<close>

definition addColumn_onPress :: "effect list" where
  "addColumn_onPress = [ReplaceModal \<lparr>name = ''ADD_COLUMN''\<rparr>]"

text \<open>
  The \<^verbatim>\<open>onPress\<close> of the settings item in the list footer and of the fixed settings
  button; the source writes the same expression in both places.
\<close>

definition footerSettings_onPress :: "sidebar_input \<Rightarrow> effect list" where
  "footerSettings_onPress i =
     (if small i
         \<and> (case currentOpenedModal i of None \<Rightarrow> False | Some m \<Rightarrow> name m = ''SETTINGS'')
      then (if length (columnIds i) = 0 then [CloseAllModals] else [])
      else [ReplaceModal \<lparr>name = ''SETTINGS''\<rparr>])"

definition fixedSettings_onPress :: "sidebar_input \<Rightarrow> effect list" where
  "fixedSettings_onPress i =
     (if small i
         \<and> (case currentOpenedModal i of None \<Rightarrow> False | Some m \<Rightarrow> name m = ''SETTINGS'')
      then (if length (columnIds i) = 0 then [CloseAllModals] else [])
      else [ReplaceModal \<lparr>name = ''SETTINGS''\<rparr>])"

subsection \<open>SidebarColumnItem\<close>

text \<open>
  What \<^verbatim>\<open>useColumn(columnId)\<close> returns. The hook is declared outside these files
  and is a parameter of the model; an unresolved part is \<open>None\<close>, and a column that is
  not in the list has a negative index.
\<close>

record column_data =
  column_id :: string

record header_details =
  title :: "string option"
  subtitle :: "string option"
  icon :: string

record useColumn_result =
  column :: "column_data option"
  columnIndex :: int
  headerDetails :: "header_details option"

record sidebarColumnItem_props =
  props_itemColumnId :: string
  props_currentOpenedModal :: "modal_payload option"
  props_highlight :: bool
  props_showLabel :: bool
  props_small :: "bool option"

text \<open>
  The render of one item: \<open>None\<close> is \<^verbatim>\<open>return null\<close>. On the way to the
  \<^verbatim>\<open>return\<close> the function calls the hook and tests its three results; it has no
  \<^verbatim>\<open>throw\<close> and reads no property of an unresolved value. The string method
  \<^verbatim>\<open>toLowerCase\<close> belongs to the JavaScript runtime and is a parameter, as the hook
  is.
\<close>

definition SidebarColumnItem ::
  "(string \<Rightarrow> string) \<Rightarrow> (string \<Rightarrow> useColumn_result) \<Rightarrow> sidebarColumnItem_props
     \<Rightarrow> header_item option" where
  "SidebarColumnItem toLowerCase useColumn p =
     (let r = useColumn (props_itemColumnId p) in
      case column r of
        None \<Rightarrow> None
      | Some col \<Rightarrow>
          if \<not> columnIndex r \<ge> 0 then None
          else (case headerDetails r of
                  None \<Rightarrow> None
                | Some details \<Rightarrow>
                    Some \<lparr>analyticsLabel = ''sidebar_column'', iconName = icon details,
                          label = toLowerCase (case title details of None \<Rightarrow> [] | Some t \<Rightarrow> t),
                          forceHoverState = props_highlight p,
                          item_showLabel = props_showLabel p\<rparr>))"

text \<open>
  The \<^verbatim>\<open>onPress\<close> of a rendered item, for its resolved column: the
  \<^verbatim>\<open>onPress\<close> prop (the sidebar passes \<^verbatim>\<open>onSidebarItemPress\<close>), then
  \<^verbatim>\<open>closeAllModals()\<close> when a modal is open, then the broadcast.
\<close>

definition sidebarColumnItem_onPress ::
  "int \<Rightarrow> column_data \<Rightarrow> sidebarColumnItem_props \<Rightarrow> sidebar_refs \<Rightarrow> sidebar_refs \<times> effect list" where
  "sidebarColumnItem_onPress now col p r =
     (let r1 = onSidebarItemPress now r;
          e1 = (if truthy_object (props_currentOpenedModal p) then [CloseAllModals] else []);
          e2 = [Emit ''FOCUS_ON_COLUMN''
                 \<lparr>columnId = column_id col,
                  highlight = Some (\<not> truthy_flag (props_small p)),
                  animated = Some (\<not> truthy_flag (props_small p)
                                   \<or> \<not> truthy_object (props_currentOpenedModal p)),
                  scrollTo = Some True\<rparr>]
      in (r1, e1 @ e2))"

text \<open>The props \<^verbatim>\<open>renderItem\<close> gives to the item of one column id.\<close>

definition renderItem_props :: "sidebar_input \<Rightarrow> string \<Rightarrow> sidebarColumnItem_props" where
  "renderItem_props i cid =
     \<lparr>props_itemColumnId = cid,
      props_currentOpenedModal = currentOpenedModal i,
      props_highlight = (highlightFocusedColumn i \<and> Some cid = focusedColumnId i),
      props_showLabel = showLabel i,
      props_small = Some (small i)\<rparr>"

text \<open>The list's slots: one per column id, in the order of \<^verbatim>\<open>columnIds\<close>.\<close>

definition renderItems ::
  "(string \<Rightarrow> string) \<Rightarrow> (string \<Rightarrow> useColumn_result) \<Rightarrow> sidebar_input
     \<Rightarrow> header_item option list" where
  "renderItems toLowerCase useColumn i =
     map (\<lambda>cid. SidebarColumnItem toLowerCase useColumn (renderItem_props i cid)) (columnIds i)"

text \<open>
  Pressing the slot of column id \<open>cid\<close>: a slot that rendered nothing has nothing to
  press.
\<close>

definition pressColumnItem ::
  "(string \<Rightarrow> string) \<Rightarrow> (string \<Rightarrow> useColumn_result) \<Rightarrow> int \<Rightarrow> sidebar_input \<Rightarrow> string
     \<Rightarrow> sidebar_refs \<Rightarrow> sidebar_refs \<times> effect list" where
  "pressColumnItem toLowerCase useColumn now i cid r =
     (case SidebarColumnItem toLowerCase useColumn (renderItem_props i cid) of
        None \<Rightarrow> (r, [])
      | Some _ \<Rightarrow>
          (case column (useColumn cid) of
             None \<Rightarrow> (r, [])
           | Some col \<Rightarrow> sidebarColumnItem_onPress now col (renderItem_props i cid) r))"

section \<open>Properties of Column\<close>

lemma borderOpacity_nonmatching:
  "columnId payload \<noteq> props_columnId c \<Longrightarrow>
   borderOpacity (onFocusOnColumn web now payload c) = map_option (\<lambda>_. 0) (borderOpacity c)"
  by (simp add: onFocusOnColumn_def borderOpacity_def setNativeProps_opacity_def
      split: option.splits)

lemma props_columnId_onFocusOnColumn [simp]:
  "props_columnId (onFocusOnColumn web now payload c) = props_columnId c"
  by (simp add: onFocusOnColumn_def Let_def split: option.splits)

text \<open>
  C3. A \<^verbatim>\<open>FOCUS_ON_COLUMN\<close> event whose \<^verbatim>\<open>columnId\<close> differs from a Column's
  own \<^verbatim>\<open>columnId\<close> leaves that Column's border at opacity 0, whatever it was before:
  a mounted border is set to 0 and nothing else about the border changes. Hence after a
  broadcast to any list of Columns, every Column whose border shows a non-zero opacity
  has the \<^verbatim>\<open>columnId\<close> of the event.
\<close>

theorem focus_nonmatching_idle:
  "(columnId payload \<noteq> props_columnId c \<longrightarrow>
      borderOpacity (onFocusOnColumn web now payload c) = map_option (\<lambda>_. 0) (borderOpacity c)
      \<and> borderOpacity (onFocusOnColumn web now payload c) \<noteq> Some 1)
   \<and> (\<forall>c' \<in> set (emit_FOCUS_ON_COLUMN web now payload cs).
        \<forall>v. borderOpacity c' = Some v \<and> v \<noteq> 0 \<longrightarrow> props_columnId c' = columnId payload)"
proof (intro conjI impI ballI allI)
  assume ne: "columnId payload \<noteq> props_columnId c"
  show "borderOpacity (onFocusOnColumn web now payload c) = map_option (\<lambda>_. 0) (borderOpacity c)"
    using ne by (rule borderOpacity_nonmatching)
  then show "borderOpacity (onFocusOnColumn web now payload c) \<noteq> Some 1"
    by (cases "borderOpacity c") simp_all
next
  fix c' v
  assume mem: "c' \<in> set (emit_FOCUS_ON_COLUMN web now payload cs)"
    and shown: "borderOpacity c' = Some v \<and> v \<noteq> 0"
  from mem obtain c0 where c': "c' = onFocusOnColumn web now payload c0"
    by (auto simp: emit_FOCUS_ON_COLUMN_def)
  show "props_columnId c' = columnId payload"
  proof (rule ccontr)
    assume "props_columnId c' \<noteq> columnId payload"
    then have "columnId payload \<noteq> props_columnId c0"
      using c' by auto
    then have "borderOpacity c' = map_option (\<lambda>_. 0) (borderOpacity c0)"
      unfolding c' by (rule borderOpacity_nonmatching)
    with shown show False
      by (cases "borderOpacity c0") auto
  qed
qed

theorem focus_nonmatching_idle_witness:
  "columnId \<lparr>columnId = ''b'', highlight = Some True, animated = None, scrollTo = None\<rparr>
     \<noteq> props_columnId \<lparr>props_columnId = ''a'', columnBorderRef = Some \<lparr>opacity = 1\<rparr>,
          columnRef = True, timers = [], tryFocusCalls = 0\<rparr>
   \<and> borderOpacity (onFocusOnColumn True 5
        \<lparr>columnId = ''b'', highlight = Some True, animated = None, scrollTo = None\<rparr>
        \<lparr>props_columnId = ''a'', columnBorderRef = Some \<lparr>opacity = 1\<rparr>,
          columnRef = True, timers = [], tryFocusCalls = 0\<rparr>) = Some 0
   \<and> \<lparr>props_columnId = ''b'', columnBorderRef = Some \<lparr>opacity = 1\<rparr>,
          columnRef = True, timers = [1005], tryFocusCalls = 1\<rparr>
       \<in> set (emit_FOCUS_ON_COLUMN True 5
        \<lparr>columnId = ''b'', highlight = Some True, animated = None, scrollTo = None\<rparr>
        [\<lparr>props_columnId = ''a'', columnBorderRef = Some \<lparr>opacity = 1\<rparr>,
           columnRef = True, timers = [], tryFocusCalls = 0\<rparr>,
         \<lparr>props_columnId = ''b'', columnBorderRef = Some \<lparr>opacity = 0\<rparr>,
           columnRef = True, timers = [], tryFocusCalls = 0\<rparr>])
   \<and> borderOpacity \<lparr>props_columnId = ''b'', columnBorderRef = Some \<lparr>opacity = 1\<rparr>,
          columnRef = True, timers = [1005], tryFocusCalls = 1\<rparr> = Some 1
   \<and> props_columnId \<lparr>props_columnId = ''b'', columnBorderRef = Some \<lparr>opacity = 1\<rparr>,
          columnRef = True, timers = [1005], tryFocusCalls = 1\<rparr>
       = columnId \<lparr>columnId = ''b'', highlight = Some True, animated = None, scrollTo = None\<rparr>"
  using focus_nonmatching_idle [of
      "\<lparr>columnId = ''b'', highlight = Some True, animated = None, scrollTo = None\<rparr>"
      "\<lparr>props_columnId = ''a'', columnBorderRef = Some \<lparr>opacity = 1\<rparr>,
          columnRef = True, timers = [], tryFocusCalls = 0\<rparr>"
      True 5
      "[\<lparr>props_columnId = ''a'', columnBorderRef = Some \<lparr>opacity = 1\<rparr>,
           columnRef = True, timers = [], tryFocusCalls = 0\<rparr>,
         \<lparr>props_columnId = ''b'', columnBorderRef = Some \<lparr>opacity = 0\<rparr>,
           columnRef = True, timers = [], tryFocusCalls = 0\<rparr>]"]
  by (simp add: emit_FOCUS_ON_COLUMN_def onFocusOnColumn_def borderOpacity_def
      setNativeProps_opacity_def truthy_string_def truthy_flag_def)

lemma advanceTo_opacity_due:
  assumes "d \<in> set (timers c)" and "d \<le> t"
  shows "borderOpacity (advanceTo t c) = map_option (\<lambda>_. 0) (borderOpacity c)"
proof -
  have step: "borderOpacity (revertHighlight x) = map_option (\<lambda>_. 0) (borderOpacity x)" for x
    by (simp add: revertHighlight_def borderOpacity_def setNativeProps_opacity_def
        split: option.splits)
  have run: "ds \<noteq> [] \<Longrightarrow>
      borderOpacity (fold (\<lambda>_. revertHighlight) ds x) = map_option (\<lambda>_. 0) (borderOpacity x)"
    for ds :: "nat list" and x
  proof (induction ds arbitrary: x)
    case Nil
    then show ?case by simp
  next
    case (Cons a ds)
    show ?case
    proof (cases "ds = []")
      case True
      then show ?thesis by (simp add: step)
    next
      case False
      then show ?thesis
        using Cons.IH [of "revertHighlight x"]
        by (simp add: step option.map_comp comp_def)
    qed
  qed
  from assms have "filter (\<lambda>d. d \<le> t) (timers c) \<noteq> []"
    by (auto simp: filter_empty_conv)
  then show ?thesis
    unfolding advanceTo_def by (simp add: run) (simp add: borderOpacity_def)
qed

lemma advanceTo_none_due:
  assumes "\<forall>d \<in> set (timers c). t < d"
  shows "borderOpacity (advanceTo t c) = borderOpacity c"
proof -
  from assms have "filter (\<lambda>d. d \<le> t) (timers c) = []"
    by (auto simp: filter_empty_conv)
  then show ?thesis
    unfolding advanceTo_def by (simp add: borderOpacity_def)
qed

lemma onFocusOnColumn_highlighted:
  assumes "columnBorderRef c = Some b"
    and "columnId payload \<noteq> []"
    and "columnId payload = props_columnId c"
    and "highlight payload = Some True"
  shows "columnBorderRef (onFocusOnColumn web now payload c) = Some (setNativeProps_opacity 1 b)"
    and "timers (onFocusOnColumn web now payload c) = timers c @ [now + 1000]"
  using assms
  by (simp_all add: onFocusOnColumn_def truthy_string_def truthy_flag_def Let_def)

text \<open>
  C4. A column id is a non-empty string. When the event's \<^verbatim>\<open>columnId\<close> is the
  Column's own and \<^verbatim>\<open>highlight\<close> is true, the handler sets the opacity of the
  Column's border view to 1 and schedules one more callback, due 1000 ms after the handler
  ran. With no further input the border's opacity is 0 once the clock has reached that
  time, and, when no callback was pending before, it is still 1 at every earlier time.
\<close>

theorem focus_matching_highlight:
  assumes "columnBorderRef c = Some b"
    and "columnId payload \<noteq> []"
    and "columnId payload = props_columnId c"
    and "highlight payload = Some True"
  shows "borderOpacity (onFocusOnColumn web now payload c) = Some 1
     \<and> timers (onFocusOnColumn web now payload c) = timers c @ [now + 1000]
     \<and> borderOpacity (advanceTo (now + 1000) (onFocusOnColumn web now payload c)) = Some 0
     \<and> (timers c = [] \<and> t < now + 1000 \<longrightarrow>
          borderOpacity (advanceTo t (onFocusOnColumn web now payload c)) = Some 1)"
proof -
  let ?c' = "onFocusOnColumn web now payload c"
  have ref: "columnBorderRef ?c' = Some (setNativeProps_opacity 1 b)"
    and tm: "timers ?c' = timers c @ [now + 1000]"
    using assms by (rule onFocusOnColumn_highlighted)+
  have one: "borderOpacity ?c' = Some 1"
    using ref by (simp add: borderOpacity_def setNativeProps_opacity_def)
  have "now + 1000 \<in> set (timers ?c')"
    using tm by simp
  then have idle: "borderOpacity (advanceTo (now + 1000) ?c') = Some 0"
    using one by (simp add: advanceTo_opacity_due [of "now + 1000"])
  have "borderOpacity (advanceTo t ?c') = Some 1" if "timers c = []" and "t < now + 1000"
  proof -
    have "\<forall>d \<in> set (timers ?c'). t < d"
      using tm that by simp
    then show ?thesis
      using one by (simp add: advanceTo_none_due)
  qed
  with one tm idle show ?thesis by blast
qed

theorem focus_matching_highlight_witness:
  "columnBorderRef \<lparr>props_columnId = ''a'', columnBorderRef = Some \<lparr>opacity = 0\<rparr>,
       columnRef = True, timers = [], tryFocusCalls = 0\<rparr> = Some \<lparr>opacity = 0\<rparr>
   \<and> columnId \<lparr>columnId = ''a'', highlight = Some True, animated = None, scrollTo = None\<rparr> \<noteq> []
   \<and> columnId \<lparr>columnId = ''a'', highlight = Some True, animated = None, scrollTo = None\<rparr>
       = props_columnId \<lparr>props_columnId = ''a'', columnBorderRef = Some \<lparr>opacity = 0\<rparr>,
           columnRef = True, timers = [], tryFocusCalls = 0\<rparr>
   \<and> highlight \<lparr>columnId = ''a'', highlight = Some True, animated = None, scrollTo = None\<rparr>
       = Some True
   \<and> borderOpacity (onFocusOnColumn False 40
        \<lparr>columnId = ''a'', highlight = Some True, animated = None, scrollTo = None\<rparr>
        \<lparr>props_columnId = ''a'', columnBorderRef = Some \<lparr>opacity = 0\<rparr>,
          columnRef = True, timers = [], tryFocusCalls = 0\<rparr>) = Some 1
   \<and> timers (onFocusOnColumn False 40
        \<lparr>columnId = ''a'', highlight = Some True, animated = None, scrollTo = None\<rparr>
        \<lparr>props_columnId = ''a'', columnBorderRef = Some \<lparr>opacity = 0\<rparr>,
          columnRef = True, timers = [], tryFocusCalls = 0\<rparr>) = [1040]
   \<and> borderOpacity (advanceTo 1040 (onFocusOnColumn False 40
        \<lparr>columnId = ''a'', highlight = Some True, animated = None, scrollTo = None\<rparr>
        \<lparr>props_columnId = ''a'', columnBorderRef = Some \<lparr>opacity = 0\<rparr>,
          columnRef = True, timers = [], tryFocusCalls = 0\<rparr>)) = Some 0
   \<and> borderOpacity (advanceTo 1039 (onFocusOnColumn False 40
        \<lparr>columnId = ''a'', highlight = Some True, animated = None, scrollTo = None\<rparr>
        \<lparr>props_columnId = ''a'', columnBorderRef = Some \<lparr>opacity = 0\<rparr>,
          columnRef = True, timers = [], tryFocusCalls = 0\<rparr>)) = Some 1"
  using focus_matching_highlight [of
      "\<lparr>props_columnId = ''a'', columnBorderRef = Some \<lparr>opacity = 0\<rparr>,
          columnRef = True, timers = [], tryFocusCalls = 0\<rparr>"
      "\<lparr>opacity = 0\<rparr>"
      "\<lparr>columnId = ''a'', highlight = Some True, animated = None, scrollTo = None\<rparr>"
      False 40 1039]
  by simp

text \<open>
  C10. When the event's \<^verbatim>\<open>columnId\<close> is not empty and equals the Column's own, and
  \<^verbatim>\<open>highlight\<close> is absent or false, the handler leaves the border view and the
  pending timers as they were. And whenever the handler changes a border's opacity to 0,
  the event's \<^verbatim>\<open>columnId\<close> was empty or different from the Column's.
\<close>

theorem focus_matching_no_highlight_frame:
  "(columnId payload \<noteq> [] \<and> columnId payload = props_columnId c
      \<and> (highlight payload = None \<or> highlight payload = Some False) \<longrightarrow>
      columnBorderRef (onFocusOnColumn web now payload c) = columnBorderRef c
      \<and> timers (onFocusOnColumn web now payload c) = timers c)
   \<and> (borderOpacity (onFocusOnColumn web now payload c) \<noteq> borderOpacity c
      \<and> borderOpacity (onFocusOnColumn web now payload c) = Some 0 \<longrightarrow>
      columnId payload = [] \<or> columnId payload \<noteq> props_columnId c)"
  by (cases "highlight payload")
    (auto simp: onFocusOnColumn_def borderOpacity_def setNativeProps_opacity_def
      truthy_string_def truthy_flag_def Let_def split: option.splits if_splits)

theorem focus_matching_no_highlight_frame_witness:
  "columnId \<lparr>columnId = ''a'', highlight = None, animated = None, scrollTo = None\<rparr> \<noteq> []
   \<and> columnId \<lparr>columnId = ''a'', highlight = None, animated = None, scrollTo = None\<rparr>
       = props_columnId \<lparr>props_columnId = ''a'', columnBorderRef = Some \<lparr>opacity = 1\<rparr>,
           columnRef = True, timers = [700], tryFocusCalls = 0\<rparr>
   \<and> highlight \<lparr>columnId = ''a'', highlight = None, animated = None, scrollTo = None\<rparr> = None
   \<and> columnBorderRef (onFocusOnColumn True 40
        \<lparr>columnId = ''a'', highlight = None, animated = None, scrollTo = None\<rparr>
        \<lparr>props_columnId = ''a'', columnBorderRef = Some \<lparr>opacity = 1\<rparr>,
          columnRef = True, timers = [700], tryFocusCalls = 0\<rparr>) = Some \<lparr>opacity = 1\<rparr>
   \<and> timers (onFocusOnColumn True 40
        \<lparr>columnId = ''a'', highlight = None, animated = None, scrollTo = None\<rparr>
        \<lparr>props_columnId = ''a'', columnBorderRef = Some \<lparr>opacity = 1\<rparr>,
          columnRef = True, timers = [700], tryFocusCalls = 0\<rparr>) = [700]"
  using focus_matching_no_highlight_frame [of
      "\<lparr>columnId = ''a'', highlight = None, animated = None, scrollTo = None\<rparr>"
      "\<lparr>props_columnId = ''a'', columnBorderRef = Some \<lparr>opacity = 1\<rparr>,
          columnRef = True, timers = [700], tryFocusCalls = 0\<rparr>"
      True 40]
  by simp

section \<open>Properties of Sidebar\<close>

text \<open>
  C1. Pressing the settings button, in the list footer or the fixed one: when the size
  class is \<^verbatim>\<open>'1-small'\<close> and the current modal is the settings modal, the press
  calls only \<^verbatim>\<open>closeAllModals()\<close> if there are no column ids and calls nothing
  otherwise; in every other case it calls only \<^verbatim>\<open>replaceModal({name: 'SETTINGS'})\<close>.
\<close>

theorem settings_onPress_policy:
  "(sizename i = ''1-small'' \<and> (\<exists>m. currentOpenedModal i = Some m \<and> name m = ''SETTINGS'') \<longrightarrow>
      (length (columnIds i) = 0 \<longrightarrow>
         footerSettings_onPress i = [CloseAllModals] \<and> fixedSettings_onPress i = [CloseAllModals])
      \<and> (length (columnIds i) \<noteq> 0 \<longrightarrow>
         footerSettings_onPress i = [] \<and> fixedSettings_onPress i = []))
   \<and> (\<not> (sizename i = ''1-small'' \<and> (\<exists>m. currentOpenedModal i = Some m \<and> name m = ''SETTINGS'')) \<longrightarrow>
      footerSettings_onPress i = [ReplaceModal \<lparr>name = ''SETTINGS''\<rparr>]
      \<and> fixedSettings_onPress i = [ReplaceModal \<lparr>name = ''SETTINGS''\<rparr>])"
  by (cases "currentOpenedModal i")
    (auto simp: footerSettings_onPress_def fixedSettings_onPress_def small_def)

theorem settings_onPress_policy_witness:
  "footerSettings_onPress \<lparr>horizontal = True, appViewMode = ''single-column'',
       sizename = ''1-small'', focusedColumnId = None, focusedColumnIndex = - 1, columnIds = [],
       currentOpenedModal = Some \<lparr>name = ''SETTINGS''\<rparr>,
       modalStack = Some [\<lparr>name = ''SETTINGS''\<rparr>]\<rparr> = [CloseAllModals]
   \<and> fixedSettings_onPress \<lparr>horizontal = True, appViewMode = ''single-column'',
       sizename = ''1-small'', focusedColumnId = Some ''a'', focusedColumnIndex = 0,
       columnIds = [''a'', ''b''],
       currentOpenedModal = Some \<lparr>name = ''SETTINGS''\<rparr>,
       modalStack = Some [\<lparr>name = ''SETTINGS''\<rparr>]\<rparr> = []
   \<and> fixedSettings_onPress \<lparr>horizontal = False, appViewMode = ''multi-column'',
       sizename = ''3-large'', focusedColumnId = Some ''a'', focusedColumnIndex = 0,
       columnIds = [''a'', ''b''],
       currentOpenedModal = Some \<lparr>name = ''SETTINGS''\<rparr>,
       modalStack = Some [\<lparr>name = ''SETTINGS''\<rparr>]\<rparr> = [ReplaceModal \<lparr>name = ''SETTINGS''\<rparr>]"
  using settings_onPress_policy [of "\<lparr>horizontal = True, appViewMode = ''single-column'',
       sizename = ''1-small'', focusedColumnId = None, focusedColumnIndex = - 1, columnIds = [],
       currentOpenedModal = Some \<lparr>name = ''SETTINGS''\<rparr>,
       modalStack = Some [\<lparr>name = ''SETTINGS''\<rparr>]\<rparr>"]
    settings_onPress_policy [of "\<lparr>horizontal = True, appViewMode = ''single-column'',
       sizename = ''1-small'', focusedColumnId = Some ''a'', focusedColumnIndex = 0,
       columnIds = [''a'', ''b''],
       currentOpenedModal = Some \<lparr>name = ''SETTINGS''\<rparr>,
       modalStack = Some [\<lparr>name = ''SETTINGS''\<rparr>]\<rparr>"]
    settings_onPress_policy [of "\<lparr>horizontal = False, appViewMode = ''multi-column'',
       sizename = ''3-large'', focusedColumnId = Some ''a'', focusedColumnIndex = 0,
       columnIds = [''a'', ''b''],
       currentOpenedModal = Some \<lparr>name = ''SETTINGS''\<rparr>,
       modalStack = Some [\<lparr>name = ''SETTINGS''\<rparr>]\<rparr>"]
  by simp

text \<open>
  C5. \<^verbatim>\<open>showFixedSettingsButton\<close> is true exactly when the sidebar is not horizontal
  or there are at least 4 column ids: for a horizontal sidebar it is false with 3 column
  ids and true with 4. The fixed settings button is rendered exactly when the flag is
  true, and the footer settings item exactly when it is false.
\<close>

theorem showFixedSettingsButton_iff:
  "showFixedSettingsButton i = (\<not> horizontal i \<or> 4 \<le> length (columnIds i))
   \<and> (horizontal i \<and> length (columnIds i) = 3 \<longrightarrow> \<not> showFixedSettingsButton i)
   \<and> (length (columnIds i) = 4 \<longrightarrow> showFixedSettingsButton i)
   \<and> (fixedSettingsButton i \<noteq> None) = showFixedSettingsButton i
   \<and> (ListFooterComponent i = None) = showFixedSettingsButton i"
  by (simp add: showFixedSettingsButton_def fixedSettingsButton_def ListFooterComponent_def)

theorem showFixedSettingsButton_iff_witness:
  "\<not> showFixedSettingsButton \<lparr>horizontal = True, appViewMode = ''single-column'',
       sizename = ''1-small'', focusedColumnId = Some ''a'', focusedColumnIndex = 0,
       columnIds = [''a'', ''b'', ''c''], currentOpenedModal = None, modalStack = Some []\<rparr>
   \<and> showFixedSettingsButton \<lparr>horizontal = True, appViewMode = ''single-column'',
       sizename = ''1-small'', focusedColumnId = Some ''a'', focusedColumnIndex = 0,
       columnIds = [''a'', ''b'', ''c'', ''d''], currentOpenedModal = None, modalStack = Some []\<rparr>
   \<and> showFixedSettingsButton \<lparr>horizontal = False, appViewMode = ''multi-column'',
       sizename = ''3-large'', focusedColumnId = None, focusedColumnIndex = - 1,
       columnIds = [], currentOpenedModal = None, modalStack = Some []\<rparr>"
  using showFixedSettingsButton_iff [of "\<lparr>horizontal = True, appViewMode = ''single-column'',
       sizename = ''1-small'', focusedColumnId = Some ''a'', focusedColumnIndex = 0,
       columnIds = [''a'', ''b'', ''c''], currentOpenedModal = None, modalStack = Some []\<rparr>"]
    showFixedSettingsButton_iff [of "\<lparr>horizontal = True, appViewMode = ''single-column'',
       sizename = ''1-small'', focusedColumnId = Some ''a'', focusedColumnIndex = 0,
       columnIds = [''a'', ''b'', ''c'', ''d''], currentOpenedModal = None, modalStack = Some []\<rparr>"]
    showFixedSettingsButton_iff [of "\<lparr>horizontal = False, appViewMode = ''multi-column'',
       sizename = ''3-large'', focusedColumnId = None, focusedColumnIndex = - 1,
       columnIds = [], currentOpenedModal = None, modalStack = Some []\<rparr>"]
  by simp

text \<open>
  C6. \<^verbatim>\<open>highlightFocusedColumn\<close> is true exactly when the app view mode is
  \<^verbatim>\<open>'single-column'\<close> or the size class is \<^verbatim>\<open>'1-small'\<close>, and
  \<^verbatim>\<open>currentOpenedModal\<close> is undefined.
\<close>

theorem highlightFocusedColumn_iff:
  "highlightFocusedColumn i =
     ((appViewMode i = ''single-column'' \<or> sizename i = ''1-small'') \<and> currentOpenedModal i = None)"
  by (cases "currentOpenedModal i")
    (simp_all add: highlightFocusedColumn_def small_def truthy_object_def)

theorem highlightFocusedColumn_iff_witness:
  "highlightFocusedColumn \<lparr>horizontal = False, appViewMode = ''single-column'',
       sizename = ''3-large'', focusedColumnId = Some ''a'', focusedColumnIndex = 0,
       columnIds = [''a''], currentOpenedModal = None, modalStack = Some []\<rparr>
   \<and> highlightFocusedColumn \<lparr>horizontal = True, appViewMode = ''multi-column'',
       sizename = ''1-small'', focusedColumnId = Some ''a'', focusedColumnIndex = 0,
       columnIds = [''a''], currentOpenedModal = None, modalStack = Some []\<rparr>
   \<and> \<not> highlightFocusedColumn \<lparr>horizontal = False, appViewMode = ''multi-column'',
       sizename = ''3-large'', focusedColumnId = Some ''a'', focusedColumnIndex = 0,
       columnIds = [''a''], currentOpenedModal = None, modalStack = Some []\<rparr>
   \<and> \<not> highlightFocusedColumn \<lparr>horizontal = True, appViewMode = ''single-column'',
       sizename = ''1-small'', focusedColumnId = Some ''a'', focusedColumnIndex = 0,
       columnIds = [''a''], currentOpenedModal = Some \<lparr>name = ''SETTINGS''\<rparr>,
       modalStack = Some [\<lparr>name = ''SETTINGS''\<rparr>]\<rparr>"
  using highlightFocusedColumn_iff [of "\<lparr>horizontal = False, appViewMode = ''single-column'',
       sizename = ''3-large'', focusedColumnId = Some ''a'', focusedColumnIndex = 0,
       columnIds = [''a''], currentOpenedModal = None, modalStack = Some []\<rparr>"]
    highlightFocusedColumn_iff [of "\<lparr>horizontal = True, appViewMode = ''multi-column'',
       sizename = ''1-small'', focusedColumnId = Some ''a'', focusedColumnIndex = 0,
       columnIds = [''a''], currentOpenedModal = None, modalStack = Some []\<rparr>"]
    highlightFocusedColumn_iff [of "\<lparr>horizontal = False, appViewMode = ''multi-column'',
       sizename = ''3-large'', focusedColumnId = Some ''a'', focusedColumnIndex = 0,
       columnIds = [''a''], currentOpenedModal = None, modalStack = Some []\<rparr>"]
    highlightFocusedColumn_iff [of "\<lparr>horizontal = True, appViewMode = ''single-column'',
       sizename = ''1-small'', focusedColumnId = Some ''a'', focusedColumnIndex = 0,
       columnIds = [''a''], currentOpenedModal = Some \<lparr>name = ''SETTINGS''\<rparr>,
       modalStack = Some [\<lparr>name = ''SETTINGS''\<rparr>]\<rparr>"]
  by simp

text \<open>
  C7. Pressing a sidebar column item stores the current time in the sidebar's click
  timestamp, then calls \<^verbatim>\<open>closeAllModals()\<close> if a modal is open, then emits
  \<^verbatim>\<open>FOCUS_ON_COLUMN\<close> with the pressed column's id, \<^verbatim>\<open>highlight: !small\<close>,
  \<^verbatim>\<open>animated: !small || !currentOpenedModal\<close> and \<^verbatim>\<open>scrollTo: true\<close>; nothing
  else is called. The first part is the item's handler for any props, the second the press
  of a slot the sidebar rendered for a resolved column.
\<close>

theorem sidebar_item_press:
  "sidebarColumnItem_onPress now col p r =
     (r\<lparr>sidebarLastClickedAtRef := now\<rparr>,
      (if props_currentOpenedModal p = None then [] else [CloseAllModals]) @
      [Emit ''FOCUS_ON_COLUMN''
         \<lparr>columnId = column_id col,
          highlight = Some (props_small p \<noteq> Some True),
          animated = Some (props_small p \<noteq> Some True \<or> props_currentOpenedModal p = None),
          scrollTo = Some True\<rparr>])
   \<and> (column (useColumn cid) = Some col \<and> 0 \<le> columnIndex (useColumn cid)
        \<and> headerDetails (useColumn cid) = Some details \<longrightarrow>
      pressColumnItem toLowerCase useColumn now i cid r =
        (r\<lparr>sidebarLastClickedAtRef := now\<rparr>,
         (if currentOpenedModal i = None then [] else [CloseAllModals]) @
         [Emit ''FOCUS_ON_COLUMN''
            \<lparr>columnId = column_id col,
             highlight = Some (sizename i \<noteq> ''1-small''),
             animated = Some (sizename i \<noteq> ''1-small'' \<or> currentOpenedModal i = None),
             scrollTo = Some True\<rparr>]))"
proof -
  have flag: "truthy_flag b = (b = Some True)" for b
    by (cases b) (simp_all add: truthy_flag_def)
  have obj: "truthy_object m = (m \<noteq> None)" for m :: "modal_payload option"
    by (cases m) (simp_all add: truthy_object_def)
  have press: "sidebarColumnItem_onPress now col q r =
     (r\<lparr>sidebarLastClickedAtRef := now\<rparr>,
      (if props_currentOpenedModal q = None then [] else [CloseAllModals]) @
      [Emit ''FOCUS_ON_COLUMN''
         \<lparr>columnId = column_id col,
          highlight = Some (props_small q \<noteq> Some True),
          animated = Some (props_small q \<noteq> Some True \<or> props_currentOpenedModal q = None),
          scrollTo = Some True\<rparr>])" for q
    by (simp add: sidebarColumnItem_onPress_def onSidebarItemPress_def flag obj)
  have slot: "pressColumnItem toLowerCase useColumn now i cid r =
      sidebarColumnItem_onPress now col (renderItem_props i cid) r"
    if "column (useColumn cid) = Some col \<and> 0 \<le> columnIndex (useColumn cid)
        \<and> headerDetails (useColumn cid) = Some details"
    using that
    by (simp add: pressColumnItem_def SidebarColumnItem_def renderItem_props_def)
  have props: "props_small (renderItem_props i cid) \<noteq> Some True \<longleftrightarrow> sizename i \<noteq> ''1-small''"
    "props_currentOpenedModal (renderItem_props i cid) = currentOpenedModal i"
    by (simp_all add: renderItem_props_def small_def)
  show ?thesis
    using press [of p] press [of "renderItem_props i cid"] slot
    unfolding props by simp
qed

theorem sidebar_item_press_witness:
  "column ((\<lambda>_. \<lparr>column = Some \<lparr>column_id = ''a''\<rparr>, columnIndex = 0,
        headerDetails = Some \<lparr>title = Some ''inbox'', subtitle = None, icon = ''bell''\<rparr>\<rparr>) ''a'')
     = Some \<lparr>column_id = ''a''\<rparr>
   \<and> pressColumnItem (\<lambda>s. s)
       (\<lambda>_. \<lparr>column = Some \<lparr>column_id = ''a''\<rparr>, columnIndex = 0,
         headerDetails = Some \<lparr>title = Some ''inbox'', subtitle = None, icon = ''bell''\<rparr>\<rparr>)
       7000
       \<lparr>horizontal = True, appViewMode = ''single-column'',
         sizename = ''1-small'', focusedColumnId = Some ''b'', focusedColumnIndex = 1,
         columnIds = [''a'', ''b''], currentOpenedModal = Some \<lparr>name = ''SETTINGS''\<rparr>,
         modalStack = Some [\<lparr>name = ''SETTINGS''\<rparr>]\<rparr>
       ''a''
       \<lparr>flatListRef = True, sidebarLastClickedAtRef = 0\<rparr>
     = (\<lparr>flatListRef = True, sidebarLastClickedAtRef = 7000\<rparr>,
        [CloseAllModals,
         Emit ''FOCUS_ON_COLUMN''
           \<lparr>columnId = ''a'', highlight = Some False, animated = Some False,
            scrollTo = Some True\<rparr>])"
  using sidebar_item_press [of 7000 "\<lparr>column_id = ''a''\<rparr>"
      "renderItem_props \<lparr>horizontal = True, appViewMode = ''single-column'',
         sizename = ''1-small'', focusedColumnId = Some ''b'', focusedColumnIndex = 1,
         columnIds = [''a'', ''b''], currentOpenedModal = Some \<lparr>name = ''SETTINGS''\<rparr>,
         modalStack = Some [\<lparr>name = ''SETTINGS''\<rparr>]\<rparr> ''a''"
      "\<lparr>flatListRef = True, sidebarLastClickedAtRef = 0\<rparr>"
      "\<lambda>_. \<lparr>column = Some \<lparr>column_id = ''a''\<rparr>, columnIndex = 0,
         headerDetails = Some \<lparr>title = Some ''inbox'', subtitle = None, icon = ''bell''\<rparr>\<rparr>"
      "''a''"
      "\<lparr>title = Some ''inbox'', subtitle = None, icon = ''bell''\<rparr>"
      "\<lambda>s. s"
      "\<lparr>horizontal = True, appViewMode = ''single-column'',
         sizename = ''1-small'', focusedColumnId = Some ''b'', focusedColumnIndex = 1,
         columnIds = [''a'', ''b''], currentOpenedModal = Some \<lparr>name = ''SETTINGS''\<rparr>,
         modalStack = Some [\<lparr>name = ''SETTINGS''\<rparr>]\<rparr>"]
  by simp

text \<open>
  C8. When \<^verbatim>\<open>useColumn\<close> does not resolve the column, or gives a negative index, or
  does not resolve the header details, the item renders nothing (\<^verbatim>\<open>null\<close>), whatever
  its other props are; the render is a total function with no error result. In the
  sidebar's list every such column id has an empty slot, at its own position, and the
  other slots are still there.
\<close>

theorem unresolved_column_renders_nothing:
  "(column (useColumn cid) = None \<or> columnIndex (useColumn cid) < 0
      \<or> headerDetails (useColumn cid) = None \<longrightarrow>
      (\<forall>p. props_itemColumnId p = cid \<longrightarrow> SidebarColumnItem toLowerCase useColumn p = None))
   \<and> length (renderItems toLowerCase useColumn i) = length (columnIds i)
   \<and> (\<forall>k < length (columnIds i).
        column (useColumn (columnIds i ! k)) = None \<or> columnIndex (useColumn (columnIds i ! k)) < 0
          \<or> headerDetails (useColumn (columnIds i ! k)) = None \<longrightarrow>
        renderItems toLowerCase useColumn i ! k = None)"
proof -
  have item: "SidebarColumnItem toLowerCase useColumn p = None"
    if "column (useColumn (props_itemColumnId p)) = None
        \<or> columnIndex (useColumn (props_itemColumnId p)) < 0
        \<or> headerDetails (useColumn (props_itemColumnId p)) = None" for p
    using that by (auto simp: SidebarColumnItem_def Let_def split: option.splits)
  have name: "props_itemColumnId (renderItem_props i c) = c" for c
    by (simp add: renderItem_props_def)
  show ?thesis
    by (auto simp: renderItems_def item name)
qed

theorem unresolved_column_renders_nothing_witness:
  "column ((\<lambda>c. if c = ''a''
        then \<lparr>column = Some \<lparr>column_id = ''a''\<rparr>, columnIndex = 0,
              headerDetails = Some \<lparr>title = Some ''inbox'', subtitle = None, icon = ''bell''\<rparr>\<rparr>
        else \<lparr>column = None, columnIndex = - 1, headerDetails = None\<rparr>) ''gone'') = None
   \<and> (1::nat) < length (columnIds \<lparr>horizontal = False, appViewMode = ''multi-column'',
         sizename = ''3-large'', focusedColumnId = Some ''a'', focusedColumnIndex = 0,
         columnIds = [''a'', ''gone''], currentOpenedModal = None, modalStack = Some []\<rparr>)
   \<and> renderItems (\<lambda>s. s)
       (\<lambda>c. if c = ''a''
        then \<lparr>column = Some \<lparr>column_id = ''a''\<rparr>, columnIndex = 0,
              headerDetails = Some \<lparr>title = Some ''inbox'', subtitle = None, icon = ''bell''\<rparr>\<rparr>
        else \<lparr>column = None, columnIndex = - 1, headerDetails = None\<rparr>)
       \<lparr>horizontal = False, appViewMode = ''multi-column'',
         sizename = ''3-large'', focusedColumnId = Some ''a'', focusedColumnIndex = 0,
         columnIds = [''a'', ''gone''], currentOpenedModal = None, modalStack = Some []\<rparr> ! 1 = None
   \<and> SidebarColumnItem (\<lambda>s. s)
       (\<lambda>c. if c = ''a''
        then \<lparr>column = Some \<lparr>column_id = ''a''\<rparr>, columnIndex = 0,
              headerDetails = Some \<lparr>title = Some ''inbox'', subtitle = None, icon = ''bell''\<rparr>\<rparr>
        else \<lparr>column = None, columnIndex = - 1, headerDetails = None\<rparr>)
       \<lparr>props_itemColumnId = ''gone'', props_currentOpenedModal = None, props_highlight = False,
        props_showLabel = False, props_small = Some False\<rparr> = None"
  using unresolved_column_renders_nothing [of
      "\<lambda>c. if c = ''a''
        then \<lparr>column = Some \<lparr>column_id = ''a''\<rparr>, columnIndex = 0,
              headerDetails = Some \<lparr>title = Some ''inbox'', subtitle = None, icon = ''bell''\<rparr>\<rparr>
        else \<lparr>column = None, columnIndex = - 1, headerDetails = None\<rparr>"
      "''gone''"
      "\<lambda>s. s"
      "\<lparr>horizontal = False, appViewMode = ''multi-column'',
         sizename = ''3-large'', focusedColumnId = Some ''a'', focusedColumnIndex = 0,
         columnIds = [''a'', ''gone''], currentOpenedModal = None, modalStack = Some []\<rparr>"]
  by (simp add: nth_Cons')

text \<open>
  C9 as stated fails: \<^verbatim>\<open>large\<close> is \<^verbatim>\<open>sizename >= '3-large'\<close>, a threshold and
  not the top of the scale. With no columns the header is absent both at
  \<^verbatim>\<open>'3-large'\<close> and at \<^verbatim>\<open>'4-x-large'\<close>, and at most one of two different size
  classes is the largest.
\<close>

theorem listHeader_large_band_counterexample:
  "ListHeaderComponent \<lparr>horizontal = False, appViewMode = ''multi-column'',
       sizename = ''3-large'', focusedColumnId = None, focusedColumnIndex = - 1,
       columnIds = [], currentOpenedModal = None, modalStack = Some []\<rparr> = None
   \<and> ListHeaderComponent \<lparr>horizontal = False, appViewMode = ''multi-column'',
       sizename = ''4-x-large'', focusedColumnId = None, focusedColumnIndex = - 1,
       columnIds = [], currentOpenedModal = None, modalStack = Some []\<rparr> = None
   \<and> length (columnIds \<lparr>horizontal = False, appViewMode = ''multi-column'',
       sizename = ''3-large'', focusedColumnId = None, focusedColumnIndex = - 1,
       columnIds = [], currentOpenedModal = None, modalStack = Some []\<rparr>) = 0"
  by (simp add: ListHeaderComponent_def large_def truthy_number_def)

text \<open>
  C9, as the render implements it. The "add column" item is the list header exactly when
  there are no column ids and the size class is below \<^verbatim>\<open>'3-large'\<close> in the order
  of the labels; otherwise the list has no header.
\<close>

theorem listHeader_shown_iff:
  "(ListHeaderComponent i \<noteq> None) = (length (columnIds i) = 0 \<and> sizename i < ''3-large'')
   \<and> (\<forall>h. ListHeaderComponent i = Some h \<longrightarrow>
         label h = ''add column'' \<and> analyticsLabel h = ''sidebar_add'')"
  by (auto simp: ListHeaderComponent_def large_def truthy_number_def not_le)

theorem listHeader_shown_iff_witness:
  "ListHeaderComponent \<lparr>horizontal = True, appViewMode = ''single-column'',
       sizename = ''2-medium'', focusedColumnId = None, focusedColumnIndex = - 1,
       columnIds = [], currentOpenedModal = None, modalStack = Some []\<rparr>
     = Some \<lparr>analyticsLabel = ''sidebar_add'', iconName = ''plus'', label = ''add column'',
             forceHoverState = False, item_showLabel = True\<rparr>
   \<and> label \<lparr>analyticsLabel = ''sidebar_add'', iconName = ''plus'', label = ''add column'',
             forceHoverState = False, item_showLabel = True\<rparr> = ''add column''
   \<and> ListHeaderComponent \<lparr>horizontal = True, appViewMode = ''single-column'',
       sizename = ''2-medium'', focusedColumnId = Some ''a'', focusedColumnIndex = 0,
       columnIds = [''a''], currentOpenedModal = None, modalStack = Some []\<rparr> = None"
  using listHeader_shown_iff [of "\<lparr>horizontal = True, appViewMode = ''single-column'',
       sizename = ''2-medium'', focusedColumnId = None, focusedColumnIndex = - 1,
       columnIds = [], currentOpenedModal = None, modalStack = Some []\<rparr>"]
    listHeader_shown_iff [of "\<lparr>horizontal = True, appViewMode = ''single-column'',
       sizename = ''2-medium'', focusedColumnId = Some ''a'', focusedColumnIndex = 0,
       columnIds = [''a''], currentOpenedModal = None, modalStack = Some []\<rparr>"]
  by (simp add: ListHeaderComponent_def large_def truthy_number_def isModalOpen_def showLabel_def)

text \<open>
  C2 as stated fails: the effect returns at once unless \<^verbatim>\<open>focusedColumnId\<close> is
  truthy. Here the focused column id changes from \<^verbatim>\<open>'a'\<close> to undefined between two
  renders, no item press has recorded a timestamp, and the list is not scrolled.
\<close>

theorem scrollToFocus_no_focus_counterexample:
  "focusedColumnId \<lparr>horizontal = False, appViewMode = ''multi-column'',
         sizename = ''3-large'', focusedColumnId = Some ''a'', focusedColumnIndex = 0,
         columnIds = [''a''], currentOpenedModal = None, modalStack = Some []\<rparr>
     \<noteq> focusedColumnId \<lparr>horizontal = False, appViewMode = ''multi-column'',
         sizename = ''3-large'', focusedColumnId = None, focusedColumnIndex = - 1,
         columnIds = [], currentOpenedModal = None, modalStack = Some []\<rparr>
   \<and> sidebarLastClickedAtRef \<lparr>flatListRef = True, sidebarLastClickedAtRef = 0\<rparr> = 0
   \<and> useLayoutEffect
       (Some (layoutEffectDeps \<lparr>horizontal = False, appViewMode = ''multi-column'',
           sizename = ''3-large'', focusedColumnId = Some ''a'', focusedColumnIndex = 0,
           columnIds = [''a''], currentOpenedModal = None, modalStack = Some []\<rparr>
         \<lparr>flatListRef = True, sidebarLastClickedAtRef = 0\<rparr>))
       5000
       \<lparr>horizontal = False, appViewMode = ''multi-column'',
         sizename = ''3-large'', focusedColumnId = None, focusedColumnIndex = - 1,
         columnIds = [], currentOpenedModal = None, modalStack = Some []\<rparr>
       \<lparr>flatListRef = True, sidebarLastClickedAtRef = 0\<rparr> = []"
  by (simp add: useLayoutEffect_def layoutEffectDeps_def scrollToFocus_def)

text \<open>
  C2, for a focused column. Take two consecutive renders of a sidebar whose list is
  mounted, the second with a defined (truthy) \<^verbatim>\<open>focusedColumnId\<close>, such that the
  focused column id or the focused column index of the second differs from that of the
  first. Then the effect of the second render calls
  \<^verbatim>\<open>scrollToItem({animated: true, item: focusedColumnId, viewPosition: 0.5})\<close>, and
  nothing else, when no item press has recorded a timestamp and when the last item press
  was 1000 ms ago or more; it calls nothing when the last item press was less than
  1000 ms ago. The time of a press is a positive \<^verbatim>\<open>Date.now()\<close> that is not later
  than the time at which the effect runs.
\<close>

theorem scrollToFocus_debounced:
  assumes "focusedColumnId i0 \<noteq> focusedColumnId i \<or> focusedColumnIndex i0 \<noteq> focusedColumnIndex i"
    and "focusedColumnId i = Some fid"
    and "fid \<noteq> []"
    and "flatListRef r"
  shows "(sidebarLastClickedAtRef r = 0 \<longrightarrow>
          useLayoutEffect (Some (layoutEffectDeps i0 r0)) now i r = [ScrollToItem True fid (1 / 2)])
     \<and> (0 < t0 \<and> t0 \<le> now \<and> now - t0 < 1000 \<longrightarrow>
          useLayoutEffect (Some (layoutEffectDeps i0 r0)) now i (onSidebarItemPress t0 r) = [])
     \<and> (1000 \<le> now - t0 \<longrightarrow>
          useLayoutEffect (Some (layoutEffectDeps i0 r0)) now i (onSidebarItemPress t0 r)
            = [ScrollToItem True fid (1 / 2)])"
proof -
  have changed: "Some (layoutEffectDeps i0 r0) \<noteq> Some (layoutEffectDeps i r')" for r'
    using assms(1) by (auto simp: layoutEffectDeps_def)
  have run: "useLayoutEffect (Some (layoutEffectDeps i0 r0)) now i r' = scrollToFocus now i r'" for r'
    using changed [of r'] by (simp add: useLayoutEffect_def)
  have body: "scrollToFocus now i r' =
      (if sidebarLastClickedAtRef r' \<noteq> 0 \<and> now - sidebarLastClickedAtRef r' < 1000
       then [] else [ScrollToItem True fid (1 / 2)])"
    if "flatListRef r'" for r'
    using that assms(2,3)
    by (simp add: scrollToFocus_def truthy_string_def truthy_number_def)
  have mounted: "flatListRef (onSidebarItemPress t0 r)"
    using assms(4) by (simp add: onSidebarItemPress_def)
  have stamp: "sidebarLastClickedAtRef (onSidebarItemPress t0 r) = t0"
    by (simp add: onSidebarItemPress_def)
  show ?thesis
    unfolding run body [OF assms(4)] body [OF mounted] stamp by simp
qed

theorem scrollToFocus_debounced_witness:
  "focusedColumnId \<lparr>horizontal = False, appViewMode = ''multi-column'',
         sizename = ''3-large'', focusedColumnId = Some ''b'', focusedColumnIndex = 0,
         columnIds = [''b'', ''a''], currentOpenedModal = None, modalStack = Some []\<rparr>
     = focusedColumnId \<lparr>horizontal = False, appViewMode = ''multi-column'',
         sizename = ''3-large'', focusedColumnId = Some ''b'', focusedColumnIndex = 1,
         columnIds = [''a'', ''b''], currentOpenedModal = None, modalStack = Some []\<rparr>
   \<and> focusedColumnIndex \<lparr>horizontal = False, appViewMode = ''multi-column'',
         sizename = ''3-large'', focusedColumnId = Some ''b'', focusedColumnIndex = 0,
         columnIds = [''b'', ''a''], currentOpenedModal = None, modalStack = Some []\<rparr>
     \<noteq> focusedColumnIndex \<lparr>horizontal = False, appViewMode = ''multi-column'',
         sizename = ''3-large'', focusedColumnId = Some ''b'', focusedColumnIndex = 1,
         columnIds = [''a'', ''b''], currentOpenedModal = None, modalStack = Some []\<rparr>
   \<and> focusedColumnId \<lparr>horizontal = False, appViewMode = ''multi-column'',
         sizename = ''3-large'', focusedColumnId = Some ''b'', focusedColumnIndex = 1,
         columnIds = [''a'', ''b''], currentOpenedModal = None, modalStack = Some []\<rparr> = Some ''b''
   \<and> ''b'' \<noteq> []
   \<and> flatListRef \<lparr>flatListRef = True, sidebarLastClickedAtRef = 0\<rparr>
   \<and> sidebarLastClickedAtRef \<lparr>flatListRef = True, sidebarLastClickedAtRef = 0\<rparr> = 0
   \<and> useLayoutEffect
       (Some (layoutEffectDeps \<lparr>horizontal = False, appViewMode = ''multi-column'',
           sizename = ''3-large'', focusedColumnId = Some ''b'', focusedColumnIndex = 0,
           columnIds = [''b'', ''a''], currentOpenedModal = None, modalStack = Some []\<rparr>
         \<lparr>flatListRef = True, sidebarLastClickedAtRef = 0\<rparr>))
       5000
       \<lparr>horizontal = False, appViewMode = ''multi-column'',
         sizename = ''3-large'', focusedColumnId = Some ''b'', focusedColumnIndex = 1,
         columnIds = [''a'', ''b''], currentOpenedModal = None, modalStack = Some []\<rparr>
       \<lparr>flatListRef = True, sidebarLastClickedAtRef = 0\<rparr> = [ScrollToItem True ''b'' (1 / 2)]
   \<and> (0::int) < 4001 \<and> (4001::int) \<le> 5000 \<and> (5000::int) - 4001 < 1000
   \<and> useLayoutEffect
       (Some (layoutEffectDeps \<lparr>horizontal = False, appViewMode = ''multi-column'',
           sizename = ''3-large'', focusedColumnId = Some ''b'', focusedColumnIndex = 0,
           columnIds = [''b'', ''a''], currentOpenedModal = None, modalStack = Some []\<rparr>
         \<lparr>flatListRef = True, sidebarLastClickedAtRef = 0\<rparr>))
       5000
       \<lparr>horizontal = False, appViewMode = ''multi-column'',
         sizename = ''3-large'', focusedColumnId = Some ''b'', focusedColumnIndex = 1,
         columnIds = [''a'', ''b''], currentOpenedModal = None, modalStack = Some []\<rparr>
       (onSidebarItemPress 4001 \<lparr>flatListRef = True, sidebarLastClickedAtRef = 0\<rparr>) = []
   \<and> (1000::int) \<le> 5000 - 4000
   \<and> useLayoutEffect
       (Some (layoutEffectDeps \<lparr>horizontal = False, appViewMode = ''multi-column'',
           sizename = ''3-large'', focusedColumnId = Some ''b'', focusedColumnIndex = 0,
           columnIds = [''b'', ''a''], currentOpenedModal = None, modalStack = Some []\<rparr>
         \<lparr>flatListRef = True, sidebarLastClickedAtRef = 0\<rparr>))
       5000
       \<lparr>horizontal = False, appViewMode = ''multi-column'',
         sizename = ''3-large'', focusedColumnId = Some ''b'', focusedColumnIndex = 1,
         columnIds = [''a'', ''b''], currentOpenedModal = None, modalStack = Some []\<rparr>
       (onSidebarItemPress 4000 \<lparr>flatListRef = True, sidebarLastClickedAtRef = 0\<rparr>)
       = [ScrollToItem True ''b'' (1 / 2)]"
  using scrollToFocus_debounced [of
      "\<lparr>horizontal = False, appViewMode = ''multi-column'',
         sizename = ''3-large'', focusedColumnId = Some ''b'', focusedColumnIndex = 0,
         columnIds = [''b'', ''a''], currentOpenedModal = None, modalStack = Some []\<rparr>"
      "\<lparr>horizontal = False, appViewMode = ''multi-column'',
         sizename = ''3-large'', focusedColumnId = Some ''b'', focusedColumnIndex = 1,
         columnIds = [''a'', ''b''], currentOpenedModal = None, modalStack = Some []\<rparr>"
      "''b''" "\<lparr>flatListRef = True, sidebarLastClickedAtRef = 0\<rparr>"
      "\<lparr>flatListRef = True, sidebarLastClickedAtRef = 0\<rparr>" 5000 4001]
    scrollToFocus_debounced [of
      "\<lparr>horizontal = False, appViewMode = ''multi-column'',
         sizename = ''3-large'', focusedColumnId = Some ''b'', focusedColumnIndex = 0,
         columnIds = [''b'', ''a''], currentOpenedModal = None, modalStack = Some []\<rparr>"
      "\<lparr>horizontal = False, appViewMode = ''multi-column'',
         sizename = ''3-large'', focusedColumnId = Some ''b'', focusedColumnIndex = 1,
         columnIds = [''a'', ''b''], currentOpenedModal = None, modalStack = Some []\<rparr>"
      "''b''" "\<lparr>flatListRef = True, sidebarLastClickedAtRef = 0\<rparr>"
      "\<lparr>flatListRef = True, sidebarLastClickedAtRef = 0\<rparr>" 5000 4000]
  by simp

end
